theory Spec2Isabelle
  imports Main
begin

section \<open>The build script of the controller bindings (cpp/setup.py)\<close>

text \<open>
  The theory embeds \<^verbatim>\<open>CMakeBuild.build_extension\<close> of \<^verbatim>\<open>cpp/setup.py\<close>.
  The function reads the process environment and the file system, assembles the
  argument list of the configure call, creates the build directory when it is
  missing and runs the build tool twice.  Everything it reads from outside is an
  explicit argument of the model, everything it does to the outside is an entry
  of a trace, and every exception it can raise is a value.
\<close>

subsection \<open>Python strings\<close>

text \<open>
  Strings are lists of characters.  \<^verbatim>\<open>str.upper\<close> is modelled on ASCII, where
  it maps \<^verbatim>\<open>a..z\<close> to \<^verbatim>\<open>A..Z\<close> and leaves every other character alone; the
  identifiers of the table in the script are ASCII.
\<close>

definition upper_char :: "char \<Rightarrow> char" where
  "upper_char c =
     (let n = (of_char c :: nat)
      in if 97 \<le> n \<and> n \<le> 122 then char_of (n - 32) else c)"

definition upper :: "string \<Rightarrow> string" where
  "upper s = map upper_char s"

text \<open>\<^verbatim>\<open>s.endswith(suf)\<close>.\<close>

definition endswith :: "string \<Rightarrow> string \<Rightarrow> bool" where
  "endswith s suf =
     (length suf \<le> length s \<and> drop (length s - length suf) s = suf)"

text \<open>\<^verbatim>\<open>"{}".format(n)\<close> for a non-negative integer: its decimal digits.\<close>

definition digit_char :: "nat \<Rightarrow> char" where
  "digit_char d = char_of (48 + d)"

fun str_nat :: "nat \<Rightarrow> string" where
  "str_nat n =
     (if n < 10 then [digit_char n]
      else str_nat (n div 10) @ [digit_char (n mod 10)])"

declare str_nat.simps [simp del]

subsection \<open>The world outside the script\<close>

text \<open>
  A path names nothing, a regular file or a directory.  \<^verbatim>\<open>os.path.exists\<close>
  holds of the last two, \<^verbatim>\<open>os.path.isdir\<close> of the last one only.
\<close>

datatype node = File | Dir

type_synonym filesystem = "string \<rightharpoonup> node"

definition os_path_exists :: "filesystem \<Rightarrow> string \<Rightarrow> bool" where
  "os_path_exists fsys p = (fsys p \<noteq> None)"

definition os_path_isdir :: "filesystem \<Rightarrow> string \<Rightarrow> bool" where
  "os_path_isdir fsys p = (fsys p = Some Dir)"

text \<open>\<^verbatim>\<open>os.path.sep\<close> on the POSIX systems the pre-staged \<^verbatim>\<open>/deps\<close> paths belong to.\<close>

definition os_path_sep :: string where
  "os_path_sep = ''/''"

text \<open>
  What the method does to the outside, in order: the line it prints, the
  directory it asks for, the processes it starts (command line and working
  directory).
\<close>

datatype event =
  PrintArgs "string list"
| Makedirs string
| CheckCall "string list" string

text \<open>
  \<^verbatim>\<open>os.environ\<close>, the file system, the paths at which the operating system
  refuses to create a directory (permissions, a read-only volume, a parent that
  is a regular file), and the events so far.
\<close>

record os_state =
  environ :: "string \<rightharpoonup> string"
  fs :: filesystem
  mkdir_refused :: "string set"
  trace :: "event list"

text \<open>\<^verbatim>\<open>sys.executable\<close> and the first two fields of \<^verbatim>\<open>sys.version_info\<close>.\<close>

record sys_info =
  executable :: string
  version_major :: nat
  version_minor :: nat

text \<open>
  The external build tool: what a process started with a command line in a
  working directory does.  \<open>None\<close> is a process that could not be started,
  \<open>Some rc\<close> one that ran and exited with status \<open>rc\<close>.
\<close>

type_synonym runner = "string list \<Rightarrow> string \<Rightarrow> int option"

subsection \<open>Module constants\<close>

definition PRE_DOWNLOADED_MUJOCO_TAR :: string where
  "PRE_DOWNLOADED_MUJOCO_TAR = ''/deps/mujoco-3.1.6-linux-x86_64.tar.gz''"

text \<open>
  A Python dictionary iterates in insertion order, so the table is the list of
  its items in the order of the literal.
\<close>

definition PRE_DOWNLOADED_SOURCE_DIRS :: "(string \<times> string) list" where
  "PRE_DOWNLOADED_SOURCE_DIRS =
     [(''abseil-cpp'', ''/deps/abseil-cpp_c2435f8342c2d0ed8101cb43adfd605fdc52dca2''),
      (''osqp-cpp'', ''/deps/osqp-cpp_43433736334d6b515ea4b0247156fea9e56c0d3f''),
      (''osqp'', ''/deps/osqp_0baddd36bd57ec1cace0a52c6dd9663e8f16df0a''),
      (''pybind11'', ''/deps/pybind11_914c06fb252b6cc3727d0eedab6736e88a3fcb01''),
      (''googletest'', ''/deps/googletest_e2239ee6043f73722e7aa812a459f54a28552929'')]"

subsection \<open>The objects the method receives\<close>

text \<open>\<^verbatim>\<open>CMakeExtension\<close>: the extension's name, the directory to run cmake on, the tool.\<close>

record CMakeExtension =
  name :: string
  sourcedir :: string
  cmake :: string

text \<open>
  \<^verbatim>\<open>CMakeBuild\<close> (\<^verbatim>\<open>self\<close>).  \<open>ext_dir\<close> is the value of
  \<^verbatim>\<open>os.path.abspath(os.path.dirname(self.get_ext_fullpath(ext.name)))\<close>, which
  setuptools and the standard library compute.
\<close>

record CMakeBuild =
  debug :: bool
  build_temp :: string
  ext_dir :: string

subsection \<open>Exceptions and effects\<close>

datatype error =
  CalledProcessError int "string list"
| OSError

text \<open>
  A statement maps the world to its outcome and the world it leaves; an
  exception ends the sequence it is raised in.
\<close>

type_synonym stmt = "os_state \<Rightarrow> (error + unit) \<times> os_state"

definition seq :: "stmt \<Rightarrow> stmt \<Rightarrow> stmt" where
  "seq m k w =
     (case m w of
        (Inl e, w') \<Rightarrow> (Inl e, w')
      | (Inr _, w') \<Rightarrow> k w')"

definition skip :: stmt where
  "skip w = (Inr (), w)"

definition record_event :: "event \<Rightarrow> os_state \<Rightarrow> os_state" where
  "record_event e w = w\<lparr>trace := trace w @ [e]\<rparr>"

text \<open>\<^verbatim>\<open>print(f"Cmake build args: {cmake_args}")\<close>.\<close>

definition print_args :: "string list \<Rightarrow> stmt" where
  "print_args args w = (Inr (), record_event (PrintArgs args) w)"

text \<open>
  \<^verbatim>\<open>os.makedirs(p)\<close>: raises when the path exists already or the operating
  system refuses, and leaves a directory at \<open>p\<close> otherwise.  The parents it
  creates on the way are not recorded: the method never looks at them.
\<close>

definition os_makedirs :: "string \<Rightarrow> stmt" where
  "os_makedirs p w =
     (if os_path_exists (fs w) p \<or> p \<in> mkdir_refused w
      then (Inl OSError, record_event (Makedirs p) w)
      else (Inr (), record_event (Makedirs p) (w\<lparr>fs := (fs w)(p \<mapsto> Dir)\<rparr>)))"

text \<open>
  \<^verbatim>\<open>subprocess.check_call(cmd, cwd=d)\<close>: no process starts in a working
  directory that is not a directory; a process that ran raises
  \<^verbatim>\<open>CalledProcessError(returncode, cmd)\<close> unless it exited with 0.  What the
  process itself does to the file system is not part of the model: the method
  reads the file system before its first call only.
\<close>

definition check_call :: "runner \<Rightarrow> string list \<Rightarrow> string \<Rightarrow> stmt" where
  "check_call run cmd cwd w =
     (if \<not> os_path_isdir (fs w) cwd
      then (Inl OSError, record_event (CheckCall cmd cwd) w)
      else case run cmd cwd of
             None \<Rightarrow> (Inl OSError, record_event (CheckCall cmd cwd) w)
           | Some rc \<Rightarrow>
               (if rc = 0 then (Inr (), record_event (CheckCall cmd cwd) w)
                else (Inl (CalledProcessError rc cmd),
                      record_event (CheckCall cmd cwd) w)))"

subsection \<open>\<^verbatim>\<open>build_extension\<close>\<close>

definition use_preinstalled_libs :: "os_state \<Rightarrow> bool" where
  "use_preinstalled_libs w =
     (environ w ''DM_ROBOTICS_USE_PREINSTALLED_LIBRARIES'' \<noteq> None)"

definition output_directory :: "CMakeBuild \<Rightarrow> string" where
  "output_directory self =
     (if \<not> endswith (ext_dir self) os_path_sep
      then ext_dir self @ os_path_sep
      else ext_dir self)"

definition build_type :: "CMakeBuild \<Rightarrow> string" where
  "build_type self = (if debug self then ''Debug'' else ''Release'')"

text \<open>The list literal the method starts \<^verbatim>\<open>cmake_args\<close> with.\<close>

definition cmake_args_init :: "sys_info \<Rightarrow> CMakeBuild \<Rightarrow> string list" where
  "cmake_args_init sys self =
     [''-DCMAKE_LIBRARY_OUTPUT_DIRECTORY='' @ output_directory self,
      ''-DPYTHON_EXECUTABLE='' @ executable sys,
      ''-DDMR_PYTHON_VERSION='' @ str_nat (version_major sys) @ ''.''
         @ str_nat (version_minor sys),
      ''-DCMAKE_BUILD_TYPE='' @ build_type self,
      ''-DDM_ROBOTICS_BUILD_TESTS=OFF'',
      ''-DDM_ROBOTICS_BUILD_WHEEL=True'',
      ''--log-level=VERBOSE'']"

definition source_dir_flag :: "string \<Rightarrow> string \<Rightarrow> string" where
  "source_dir_flag libname dirname =
     ''-DFETCHCONTENT_SOURCE_DIR_'' @ upper libname @ '':STRING='' @ dirname"

text \<open>The loop over the items of the table, appending to \<^verbatim>\<open>cmake_args\<close>.\<close>

fun source_dirs_loop ::
  "filesystem \<Rightarrow> (string \<times> string) list \<Rightarrow> string list \<Rightarrow> string list" where
  "source_dirs_loop fsys [] cmake_args = cmake_args"
| "source_dirs_loop fsys ((libname, dirname) # items) cmake_args =
     source_dirs_loop fsys items
       (if os_path_isdir fsys dirname
        then cmake_args @ [source_dir_flag libname dirname]
        else cmake_args)"

text \<open>\<^verbatim>\<open>cmake_args\<close> as it stands when the method prints it.\<close>

definition cmake_args ::
  "sys_info \<Rightarrow> (string \<times> string) list \<Rightarrow> os_state \<Rightarrow> CMakeBuild \<Rightarrow> string list" where
  "cmake_args sys source_dirs w self =
     (if use_preinstalled_libs w
      then source_dirs_loop (fs w) source_dirs
             (cmake_args_init sys self
                @ [''-DDM_ROBOTICS_MUJOCO_TAR='' @ PRE_DOWNLOADED_MUJOCO_TAR]
                @ [''-DFETCHCONTENT_FULLY_DISCONNECTED:BOOL=TRUE'']
                @ [''-DDM_ROBOTICS_USE_SYSTEM_Eigen3:BOOL=TRUE''])
      else cmake_args_init sys self)"

definition build_args :: "os_state \<Rightarrow> string list" where
  "build_args w =
     (if environ w ''CMAKE_BUILD_PARALLEL_LEVEL'' = None then [] @ [''-j4''] else [])"

text \<open>The two command lines.\<close>

definition configure_cmd ::
  "sys_info \<Rightarrow> (string \<times> string) list \<Rightarrow> os_state \<Rightarrow> CMakeBuild \<Rightarrow> CMakeExtension
     \<Rightarrow> string list" where
  "configure_cmd sys source_dirs w self ext =
     [cmake ext] @ cmake_args sys source_dirs w self @ [''-S'', sourcedir ext]"

definition build_cmd :: "os_state \<Rightarrow> CMakeExtension \<Rightarrow> string list" where
  "build_cmd w ext = [cmake ext, ''--build'', ''.''] @ build_args w"

text \<open>
  The method.  The table it iterates over is the module's global; the method is
  stated for any table first.
\<close>

definition build_extension_on ::
  "runner \<Rightarrow> sys_info \<Rightarrow> (string \<times> string) list \<Rightarrow> CMakeBuild \<Rightarrow> CMakeExtension
     \<Rightarrow> stmt" where
  "build_extension_on run sys source_dirs self ext w =
     (seq (print_args (cmake_args sys source_dirs w self))
     (seq (\<lambda>w'. if \<not> os_path_exists (fs w') (build_temp self)
                then os_makedirs (build_temp self) w' else skip w')
     (seq (check_call run (configure_cmd sys source_dirs w self ext) (build_temp self))
          (check_call run (build_cmd w ext) (build_temp self))))) w"

definition build_extension :: "runner \<Rightarrow> sys_info \<Rightarrow> CMakeBuild \<Rightarrow> CMakeExtension \<Rightarrow> stmt" where
  "build_extension run sys self ext =
     build_extension_on run sys PRE_DOWNLOADED_SOURCE_DIRS self ext"

subsection \<open>Vocabulary of the properties\<close>

text \<open>\<^verbatim>\<open>s.startswith(p)\<close>, and the flags that hand a local source directory over.\<close>

definition startswith :: "string \<Rightarrow> string \<Rightarrow> bool" where
  "startswith s p = (take (length p) s = p)"

definition is_source_dir_flag :: "string \<Rightarrow> bool" where
  "is_source_dir_flag s = startswith s ''-DFETCHCONTENT_SOURCE_DIR_''"

text \<open>
  The build directory is there for the configure call: it is a directory, or
  nothing has its name and the operating system lets it be created.
\<close>

definition staging_available :: "os_state \<Rightarrow> CMakeBuild \<Rightarrow> bool" where
  "staging_available w self =
     (os_path_isdir (fs w) (build_temp self)
      \<or> (fs w (build_temp self) = None \<and> build_temp self \<notin> mkdir_refused w))"

text \<open>Runners and inputs to run the model on.\<close>

definition exits_with :: "int \<Rightarrow> runner" where
  "exits_with rc cmd cwd = Some rc"

definition python_3_11 :: sys_info where
  "python_3_11 =
     \<lparr>executable = ''/usr/bin/python3'', version_major = 3, version_minor = 11\<rparr>"

definition mapper_ext :: CMakeExtension where
  "mapper_ext =
     \<lparr>name = ''dm_robotics.controllers.cartesian_6d_to_joint_velocity_mapper'',
      sourcedir = ''/src/cpp'', cmake = ''cmake''\<rparr>"

definition release_build :: CMakeBuild where
  "release_build = \<lparr>debug = False, build_temp = ''build/temp'', ext_dir = ''/out''\<rparr>"

text \<open>The structural flags of \<open>release_build\<close> under \<open>python_3_11\<close>.\<close>

definition release_flags :: "string list" where
  "release_flags =
     [''-DCMAKE_LIBRARY_OUTPUT_DIRECTORY=/out/'',
      ''-DPYTHON_EXECUTABLE=/usr/bin/python3'',
      ''-DDMR_PYTHON_VERSION=3.11'',
      ''-DCMAKE_BUILD_TYPE=Release'',
      ''-DDM_ROBOTICS_BUILD_TESTS=OFF'',
      ''-DDM_ROBOTICS_BUILD_WHEEL=True'',
      ''--log-level=VERBOSE'']"

text \<open>A world given by its environment and its file system, as lists of entries.\<close>

definition world :: "(string \<times> string) list \<Rightarrow> (string \<times> node) list \<Rightarrow> os_state" where
  "world env files =
     \<lparr>environ = map_of env, fs = map_of files, mkdir_refused = {}, trace = []\<rparr>"

section \<open>Properties\<close>

subsection \<open>Strings\<close>

lemma endswith_append_self: "endswith (s @ suf) suf"
  by (simp add: endswith_def)

text \<open>
  C5: the output directory the method uses always ends in the path separator,
  and a directory that ends in it already is used unchanged.
\<close>

theorem output_directory_normalized:
  "endswith (output_directory self) os_path_sep
   \<and> (endswith (ext_dir self) os_path_sep \<longrightarrow> output_directory self = ext_dir self)
   \<and> output_directory (self\<lparr>ext_dir := output_directory self\<rparr>) = output_directory self"
  by (simp add: output_directory_def endswith_append_self)

theorem output_directory_normalized_witness:
  "endswith ''/out/'' os_path_sep
   \<and> output_directory \<lparr>debug = False, build_temp = ''build'', ext_dir = ''/out/''\<rparr> = ''/out/''
   \<and> output_directory \<lparr>debug = False, build_temp = ''build'', ext_dir = ''/out''\<rparr> = ''/out/''"
  using output_directory_normalized
    [of "\<lparr>debug = False, build_temp = ''build'', ext_dir = ''/out/''\<rparr>"]
  by (simp add: output_directory_def endswith_def os_path_sep_def)

subsection \<open>The loop over the table\<close>

lemma source_dirs_loop_acc:
  "source_dirs_loop fsys items acc = acc @ source_dirs_loop fsys items []"
proof (induction items arbitrary: acc)
  case Nil
  show ?case by simp
next
  case (Cons item items)
  obtain libname dirname where item: "item = (libname, dirname)" by (cases item)
  show ?case
    using Cons.IH [of "acc @ [source_dir_flag libname dirname]"]
      Cons.IH [of "[source_dir_flag libname dirname]"] Cons.IH [of acc]
    by (simp add: item)
qed

lemma source_dirs_loop_append:
  "source_dirs_loop fsys (xs @ ys) acc = source_dirs_loop fsys ys (source_dirs_loop fsys xs acc)"
  by (induction xs arbitrary: acc) auto

lemma source_dirs_loop_none:
  "\<forall>(libname, dirname) \<in> set items. \<not> os_path_isdir fsys dirname \<Longrightarrow>
   source_dirs_loop fsys items acc = acc"
  by (induction items arbitrary: acc) auto

lemma source_dirs_loop_cong:
  "\<forall>(libname, dirname) \<in> set items. os_path_isdir f1 dirname = os_path_isdir f2 dirname \<Longrightarrow>
   source_dirs_loop f1 items acc = source_dirs_loop f2 items acc"
  by (induction items arbitrary: acc) auto

subsection \<open>The argument list\<close>

lemma cmake_args_init_no_source_dir_flag:
  "filter is_source_dir_flag (cmake_args_init sys self) = []"
  by (simp add: cmake_args_init_def is_source_dir_flag_def startswith_def)

lemma cmake_args_init_offline:
  "''-DFETCHCONTENT_FULLY_DISCONNECTED:BOOL=TRUE'' \<notin> set (cmake_args_init sys self)"
  by (simp add: cmake_args_init_def)

lemma cmake_args_prefix:
  "\<exists>rest. cmake_args sys source_dirs w self = cmake_args_init sys self @ rest"
proof (cases "use_preinstalled_libs w")
  case True
  show ?thesis
    unfolding cmake_args_def
    by (subst source_dirs_loop_acc) (simp add: True)
next
  case False
  then show ?thesis by (simp add: cmake_args_def)
qed

text \<open>
  C4: without the override variable in the environment the argument list is
  the seven structural flags and nothing else, whatever the table and the file
  system hold: no flag for a local source directory, no flag that disconnects
  the fetching.
\<close>

theorem no_override_structural_only:
  assumes "environ w ''DM_ROBOTICS_USE_PREINSTALLED_LIBRARIES'' = None"
  shows "cmake_args sys source_dirs w self =
           [''-DCMAKE_LIBRARY_OUTPUT_DIRECTORY='' @ output_directory self,
            ''-DPYTHON_EXECUTABLE='' @ executable sys,
            ''-DDMR_PYTHON_VERSION='' @ str_nat (version_major sys) @ ''.''
               @ str_nat (version_minor sys),
            ''-DCMAKE_BUILD_TYPE='' @ build_type self,
            ''-DDM_ROBOTICS_BUILD_TESTS=OFF'',
            ''-DDM_ROBOTICS_BUILD_WHEEL=True'',
            ''--log-level=VERBOSE'']
         \<and> filter is_source_dir_flag (cmake_args sys source_dirs w self) = []
         \<and> ''-DFETCHCONTENT_FULLY_DISCONNECTED:BOOL=TRUE''
              \<notin> set (cmake_args sys source_dirs w self)"
proof -
  have "cmake_args sys source_dirs w self = cmake_args_init sys self"
    using assms by (simp add: cmake_args_def use_preinstalled_libs_def)
  then show ?thesis
    using cmake_args_init_no_source_dir_flag [of sys self] cmake_args_init_offline [of sys self]
    by (simp add: cmake_args_init_def)
qed

theorem no_override_structural_only_witness:
  "cmake_args python_3_11 PRE_DOWNLOADED_SOURCE_DIRS
     (world [(''CMAKE_BUILD_PARALLEL_LEVEL'', ''8'')]
        [(''/deps/osqp_0baddd36bd57ec1cace0a52c6dd9663e8f16df0a'', Dir)])
     release_build =
     [''-DCMAKE_LIBRARY_OUTPUT_DIRECTORY=/out/'',
      ''-DPYTHON_EXECUTABLE=/usr/bin/python3'',
      ''-DDMR_PYTHON_VERSION=3.11'',
      ''-DCMAKE_BUILD_TYPE=Release'',
      ''-DDM_ROBOTICS_BUILD_TESTS=OFF'',
      ''-DDM_ROBOTICS_BUILD_WHEEL=True'',
      ''--log-level=VERBOSE'']"
proof -
  have absent: "environ (world [(''CMAKE_BUILD_PARALLEL_LEVEL'', ''8'')]
        [(''/deps/osqp_0baddd36bd57ec1cace0a52c6dd9663e8f16df0a'', Dir)])
        ''DM_ROBOTICS_USE_PREINSTALLED_LIBRARIES'' = None"
    by (simp add: world_def)
  have v: "str_nat 3 = ''3''" "str_nat 11 = ''11''" by code_simp+
  show ?thesis
    using no_override_structural_only [OF absent, of python_3_11 PRE_DOWNLOADED_SOURCE_DIRS release_build]
    by (simp add: python_3_11_def release_build_def output_directory_def endswith_def
        os_path_sep_def build_type_def v)
qed

text \<open>
  C1 (amended): with the override variable set and no path of the table
  present, the argument list is the structural flags followed by three fixed
  flags (the pre-downloaded MuJoCo archive, fetching disconnected, the system's
  Eigen3), and no flag for a local source directory.
\<close>

theorem override_without_local_dirs:
  assumes "use_preinstalled_libs w"
    and "\<forall>(libname, dirname) \<in> set source_dirs. \<not> os_path_exists (fs w) dirname"
  shows "cmake_args sys source_dirs w self =
           cmake_args_init sys self
             @ [''-DDM_ROBOTICS_MUJOCO_TAR=/deps/mujoco-3.1.6-linux-x86_64.tar.gz'',
                ''-DFETCHCONTENT_FULLY_DISCONNECTED:BOOL=TRUE'',
                ''-DDM_ROBOTICS_USE_SYSTEM_Eigen3:BOOL=TRUE'']
         \<and> filter is_source_dir_flag (cmake_args sys source_dirs w self) = []"
proof -
  have "\<forall>(libname, dirname) \<in> set source_dirs. \<not> os_path_isdir (fs w) dirname"
    using assms(2) by (auto simp: os_path_exists_def os_path_isdir_def)
  then have "cmake_args sys source_dirs w self =
           cmake_args_init sys self
             @ [''-DDM_ROBOTICS_MUJOCO_TAR=/deps/mujoco-3.1.6-linux-x86_64.tar.gz'',
                ''-DFETCHCONTENT_FULLY_DISCONNECTED:BOOL=TRUE'',
                ''-DDM_ROBOTICS_USE_SYSTEM_Eigen3:BOOL=TRUE'']"
    using assms(1) by (simp add: cmake_args_def source_dirs_loop_none PRE_DOWNLOADED_MUJOCO_TAR_def)
  then show ?thesis
    using cmake_args_init_no_source_dir_flag [of sys self]
    by (simp add: is_source_dir_flag_def startswith_def)
qed

theorem override_without_local_dirs_witness:
  "cmake_args python_3_11 PRE_DOWNLOADED_SOURCE_DIRS
     (world [(''DM_ROBOTICS_USE_PREINSTALLED_LIBRARIES'', ''1'')] []) release_build =
     [''-DCMAKE_LIBRARY_OUTPUT_DIRECTORY=/out/'',
      ''-DPYTHON_EXECUTABLE=/usr/bin/python3'',
      ''-DDMR_PYTHON_VERSION=3.11'',
      ''-DCMAKE_BUILD_TYPE=Release'',
      ''-DDM_ROBOTICS_BUILD_TESTS=OFF'',
      ''-DDM_ROBOTICS_BUILD_WHEEL=True'',
      ''--log-level=VERBOSE'',
      ''-DDM_ROBOTICS_MUJOCO_TAR=/deps/mujoco-3.1.6-linux-x86_64.tar.gz'',
      ''-DFETCHCONTENT_FULLY_DISCONNECTED:BOOL=TRUE'',
      ''-DDM_ROBOTICS_USE_SYSTEM_Eigen3:BOOL=TRUE'']"
proof -
  let ?w = "world [(''DM_ROBOTICS_USE_PREINSTALLED_LIBRARIES'', ''1'')] []"
  have on: "use_preinstalled_libs ?w"
    by (simp add: use_preinstalled_libs_def world_def)
  have none: "\<forall>(libname, dirname) \<in> set PRE_DOWNLOADED_SOURCE_DIRS.
                \<not> os_path_exists (fs ?w) dirname"
    by (simp add: world_def os_path_exists_def)
  have v: "str_nat 3 = ''3''" "str_nat 11 = ''11''" by code_simp+
  show ?thesis
    using override_without_local_dirs [OF on none, of python_3_11 release_build]
    by (simp add: cmake_args_init_def python_3_11_def release_build_def output_directory_def
        endswith_def os_path_sep_def build_type_def v)
qed

text \<open>
  The claim as first stated, with exactly two fixed flags after the structural
  ones, fails on a table whose only path is absent: the list is three flags
  longer than the structural ones, and the archive flag is among them.
\<close>

theorem two_fixed_flags_counterexample:
  "use_preinstalled_libs (world [(''DM_ROBOTICS_USE_PREINSTALLED_LIBRARIES'', ''1'')] [])
   \<and> \<not> os_path_exists (fs (world [(''DM_ROBOTICS_USE_PREINSTALLED_LIBRARIES'', ''1'')] []))
         ''/deps/osqp''
   \<and> cmake_args python_3_11 [(''osqp'', ''/deps/osqp'')]
        (world [(''DM_ROBOTICS_USE_PREINSTALLED_LIBRARIES'', ''1'')] []) release_build
      \<noteq> cmake_args_init python_3_11 release_build
          @ [''-DFETCHCONTENT_FULLY_DISCONNECTED:BOOL=TRUE'',
             ''-DDM_ROBOTICS_USE_SYSTEM_Eigen3:BOOL=TRUE'']
   \<and> length (cmake_args python_3_11 [(''osqp'', ''/deps/osqp'')]
        (world [(''DM_ROBOTICS_USE_PREINSTALLED_LIBRARIES'', ''1'')] []) release_build)
      = length (cmake_args_init python_3_11 release_build) + 3
   \<and> ''-DDM_ROBOTICS_MUJOCO_TAR=/deps/mujoco-3.1.6-linux-x86_64.tar.gz''
        \<in> set (cmake_args python_3_11 [(''osqp'', ''/deps/osqp'')]
        (world [(''DM_ROBOTICS_USE_PREINSTALLED_LIBRARIES'', ''1'')] []) release_build)"
  by (simp add: cmake_args_def use_preinstalled_libs_def world_def os_path_exists_def
      os_path_isdir_def cmake_args_init_def PRE_DOWNLOADED_MUJOCO_TAR_def)

text \<open>
  C3 (amended): the argument list is determined by the interpreter's path and
  version, the table in its order, the output directory and the debug flag of
  the method's object, whether the override variable is set, and which paths of
  the table are directories.  Two calls that agree on these give the same list,
  element for element and in the same order, whatever else differs between
  them: other variables of the environment, other files, the build directory.
\<close>

theorem cmake_args_deterministic:
  assumes "executable sys1 = executable sys2"
    and "version_major sys1 = version_major sys2"
    and "version_minor sys1 = version_minor sys2"
    and "debug self1 = debug self2"
    and "ext_dir self1 = ext_dir self2"
    and "use_preinstalled_libs w1 = use_preinstalled_libs w2"
    and "\<forall>(libname, dirname) \<in> set source_dirs.
           os_path_isdir (fs w1) dirname = os_path_isdir (fs w2) dirname"
  shows "cmake_args sys1 source_dirs w1 self1 = cmake_args sys2 source_dirs w2 self2"
proof -
  have init: "cmake_args_init sys1 self1 = cmake_args_init sys2 self2"
    using assms(1-5) by (simp add: cmake_args_init_def output_directory_def build_type_def)
  show ?thesis
    using assms(6) source_dirs_loop_cong [OF assms(7)]
    by (simp add: cmake_args_def init)
qed

theorem cmake_args_deterministic_witness:
  "cmake_args python_3_11 PRE_DOWNLOADED_SOURCE_DIRS
     (world [(''DM_ROBOTICS_USE_PREINSTALLED_LIBRARIES'', ''1'')]
        [(''/deps/osqp_0baddd36bd57ec1cace0a52c6dd9663e8f16df0a'', Dir)]) release_build
   = cmake_args python_3_11 PRE_DOWNLOADED_SOURCE_DIRS
     (world [(''CMAKE_BUILD_PARALLEL_LEVEL'', ''2''),
             (''DM_ROBOTICS_USE_PREINSTALLED_LIBRARIES'', ''yes'')]
        [(''/deps/osqp_0baddd36bd57ec1cace0a52c6dd9663e8f16df0a'', Dir),
         (''build/temp'', Dir), (''/deps/mujoco-3.1.6-linux-x86_64.tar.gz'', File)])
     (release_build\<lparr>build_temp := ''build/other''\<rparr>)"
proof -
  let ?w1 = "world [(''DM_ROBOTICS_USE_PREINSTALLED_LIBRARIES'', ''1'')]
        [(''/deps/osqp_0baddd36bd57ec1cace0a52c6dd9663e8f16df0a'', Dir)]"
  let ?w2 = "world [(''CMAKE_BUILD_PARALLEL_LEVEL'', ''2''),
             (''DM_ROBOTICS_USE_PREINSTALLED_LIBRARIES'', ''yes'')]
        [(''/deps/osqp_0baddd36bd57ec1cace0a52c6dd9663e8f16df0a'', Dir),
         (''build/temp'', Dir), (''/deps/mujoco-3.1.6-linux-x86_64.tar.gz'', File)]"
  let ?self2 = "release_build\<lparr>build_temp := ''build/other''\<rparr>"
  have a: "use_preinstalled_libs ?w1 = use_preinstalled_libs ?w2"
    by (simp add: use_preinstalled_libs_def world_def)
  have b: "\<forall>(libname, dirname) \<in> set PRE_DOWNLOADED_SOURCE_DIRS.
           os_path_isdir (fs ?w1) dirname = os_path_isdir (fs ?w2) dirname"
    by (simp add: PRE_DOWNLOADED_SOURCE_DIRS_def world_def os_path_isdir_def)
  have d: "debug release_build = debug ?self2" "ext_dir release_build = ext_dir ?self2"
    by simp_all
  show ?thesis
    by (rule cmake_args_deterministic [OF refl refl refl d a b])
qed

text \<open>
  The claim as first stated lists the interpreter's version among the inputs
  and not its path.  Two interpreters of the same version at different paths,
  with everything else the same, give different lists: the second flag holds
  the path.
\<close>

theorem interpreter_path_counterexample:
  "version_major python_3_11
     = version_major (python_3_11\<lparr>executable := ''/venv/bin/python3''\<rparr>)
   \<and> version_minor python_3_11
     = version_minor (python_3_11\<lparr>executable := ''/venv/bin/python3''\<rparr>)
   \<and> cmake_args python_3_11 PRE_DOWNLOADED_SOURCE_DIRS (world [] []) release_build
     \<noteq> cmake_args (python_3_11\<lparr>executable := ''/venv/bin/python3''\<rparr>)
         PRE_DOWNLOADED_SOURCE_DIRS (world [] []) release_build
   \<and> cmake_args python_3_11 PRE_DOWNLOADED_SOURCE_DIRS (world [] []) release_build ! 1
     = ''-DPYTHON_EXECUTABLE=/usr/bin/python3''
   \<and> cmake_args (python_3_11\<lparr>executable := ''/venv/bin/python3''\<rparr>)
         PRE_DOWNLOADED_SOURCE_DIRS (world [] []) release_build ! 1
     = ''-DPYTHON_EXECUTABLE=/venv/bin/python3''"
  by (simp add: cmake_args_def use_preinstalled_libs_def world_def cmake_args_init_def
      python_3_11_def)

text \<open>
  C10: an entry of the table whose path is a regular file adds nothing to the
  argument list: the list is the one of the table without the entry, and the one
  of the world in which the path is absent.
\<close>

theorem regular_file_skipped:
  assumes "fs w dirname = Some File"
  shows "cmake_args sys (before @ (libname, dirname) # after) w self
           = cmake_args sys (before @ after) w self
         \<and> cmake_args sys source_dirs w self
           = cmake_args sys source_dirs (w\<lparr>fs := (fs w)(dirname := None)\<rparr>) self"
proof -
  have "\<not> os_path_isdir (fs w) dirname"
    using assms by (simp add: os_path_isdir_def)
  then have one: "cmake_args sys (before @ (libname, dirname) # after) w self
           = cmake_args sys (before @ after) w self"
    by (simp add: cmake_args_def source_dirs_loop_append)
  have "\<forall>(l, d) \<in> set source_dirs.
          os_path_isdir (fs w) d = os_path_isdir (fs (w\<lparr>fs := (fs w)(dirname := None)\<rparr>)) d"
    using assms by (auto simp: os_path_isdir_def)
  then have two: "cmake_args sys source_dirs w self
           = cmake_args sys source_dirs (w\<lparr>fs := (fs w)(dirname := None)\<rparr>) self"
    using source_dirs_loop_cong [of source_dirs "fs w" "fs (w\<lparr>fs := (fs w)(dirname := None)\<rparr>)"]
    by (simp add: cmake_args_def use_preinstalled_libs_def)
  from one two show ?thesis by simp
qed

theorem regular_file_skipped_witness:
  "fs (world [(''DM_ROBOTICS_USE_PREINSTALLED_LIBRARIES'', ''1'')] [(''/deps/osqp'', File)])
     ''/deps/osqp'' = Some File
   \<and> use_preinstalled_libs
       (world [(''DM_ROBOTICS_USE_PREINSTALLED_LIBRARIES'', ''1'')] [(''/deps/osqp'', File)])
   \<and> cmake_args python_3_11 [(''osqp'', ''/deps/osqp'')]
       (world [(''DM_ROBOTICS_USE_PREINSTALLED_LIBRARIES'', ''1'')] [(''/deps/osqp'', File)])
       release_build
     = cmake_args python_3_11 []
       (world [(''DM_ROBOTICS_USE_PREINSTALLED_LIBRARIES'', ''1'')] [(''/deps/osqp'', File)])
       release_build"
proof -
  let ?w = "world [(''DM_ROBOTICS_USE_PREINSTALLED_LIBRARIES'', ''1'')] [(''/deps/osqp'', File)]"
  have isfile: "fs ?w ''/deps/osqp'' = Some File"
    by (simp add: world_def)
  have on: "use_preinstalled_libs ?w"
    by (simp add: use_preinstalled_libs_def world_def)
  show ?thesis
    using regular_file_skipped [OF isfile, of python_3_11 "[]" "''osqp''" "[]" release_build "[]"]
      isfile on
    by simp
qed

text \<open>
  C2 (amended): with the override variable set, an entry of the table whose
  path is a directory contributes exactly one flag, at the entry's place among
  the flags of the table: \<^verbatim>\<open>-DFETCHCONTENT_SOURCE_DIR_\<close>, the upper-cased
  identifier, \<^verbatim>\<open>:STRING=\<close> and the path.  The list is one element longer than
  the list of the table without the entry.
\<close>

theorem local_directory_flag:
  assumes "use_preinstalled_libs w"
    and "os_path_isdir (fs w) dirname"
  shows "cmake_args sys (before @ (libname, dirname) # after) w self
           = cmake_args sys before w self
               @ [''-DFETCHCONTENT_SOURCE_DIR_'' @ upper libname @ '':STRING='' @ dirname]
               @ source_dirs_loop (fs w) after []
         \<and> length (cmake_args sys (before @ (libname, dirname) # after) w self)
           = length (cmake_args sys (before @ after) w self) + 1"
proof -
  let ?flag = "''-DFETCHCONTENT_SOURCE_DIR_'' @ upper libname @ '':STRING='' @ dirname"
  let ?acc = "cmake_args sys before w self"
  have split: "cmake_args sys (before @ items) w self = ?acc @ source_dirs_loop (fs w) items []"
    for items
    using assms(1) source_dirs_loop_acc [of "fs w" items ?acc]
    by (simp add: cmake_args_def source_dirs_loop_append)
  have step: "source_dirs_loop (fs w) ((libname, dirname) # after) []
                = [?flag] @ source_dirs_loop (fs w) after []"
    using assms(2) source_dirs_loop_acc [of "fs w" after "[?flag]"]
    by (simp add: source_dir_flag_def)
  show ?thesis
    using split [of "(libname, dirname) # after"] split [of after] step
    by simp
qed

theorem local_directory_flag_witness:
  "cmake_args python_3_11 PRE_DOWNLOADED_SOURCE_DIRS
     (world [(''DM_ROBOTICS_USE_PREINSTALLED_LIBRARIES'', '''')]
        [(''/deps/osqp-cpp_43433736334d6b515ea4b0247156fea9e56c0d3f'', Dir)]) release_build =
     [''-DCMAKE_LIBRARY_OUTPUT_DIRECTORY=/out/'',
      ''-DPYTHON_EXECUTABLE=/usr/bin/python3'',
      ''-DDMR_PYTHON_VERSION=3.11'',
      ''-DCMAKE_BUILD_TYPE=Release'',
      ''-DDM_ROBOTICS_BUILD_TESTS=OFF'',
      ''-DDM_ROBOTICS_BUILD_WHEEL=True'',
      ''--log-level=VERBOSE'',
      ''-DDM_ROBOTICS_MUJOCO_TAR=/deps/mujoco-3.1.6-linux-x86_64.tar.gz'',
      ''-DFETCHCONTENT_FULLY_DISCONNECTED:BOOL=TRUE'',
      ''-DDM_ROBOTICS_USE_SYSTEM_Eigen3:BOOL=TRUE'',
      ''-DFETCHCONTENT_SOURCE_DIR_OSQP-CPP:STRING=/deps/osqp-cpp_43433736334d6b515ea4b0247156fea9e56c0d3f'']"
proof -
  let ?d = "''/deps/osqp-cpp_43433736334d6b515ea4b0247156fea9e56c0d3f''"
  let ?w = "world [(''DM_ROBOTICS_USE_PREINSTALLED_LIBRARIES'', '''')] [(?d, Dir)]"
  let ?before = "[(''abseil-cpp'', ''/deps/abseil-cpp_c2435f8342c2d0ed8101cb43adfd605fdc52dca2'')]"
  let ?after = "[(''osqp'', ''/deps/osqp_0baddd36bd57ec1cace0a52c6dd9663e8f16df0a''),
      (''pybind11'', ''/deps/pybind11_914c06fb252b6cc3727d0eedab6736e88a3fcb01''),
      (''googletest'', ''/deps/googletest_e2239ee6043f73722e7aa812a459f54a28552929'')]"
  have on: "use_preinstalled_libs ?w"
    by (simp add: use_preinstalled_libs_def world_def)
  have dir: "os_path_isdir (fs ?w) ?d"
    by (simp add: os_path_isdir_def world_def)
  have table: "PRE_DOWNLOADED_SOURCE_DIRS = ?before @ (''osqp-cpp'', ?d) # ?after"
    by (simp add: PRE_DOWNLOADED_SOURCE_DIRS_def)
  have up: "upper ''osqp-cpp'' = ''OSQP-CPP''" by code_simp
  have v: "str_nat 3 = ''3''" "str_nat 11 = ''11''" by code_simp+
  have before: "cmake_args python_3_11 ?before ?w release_build =
     [''-DCMAKE_LIBRARY_OUTPUT_DIRECTORY=/out/'',
      ''-DPYTHON_EXECUTABLE=/usr/bin/python3'',
      ''-DDMR_PYTHON_VERSION=3.11'',
      ''-DCMAKE_BUILD_TYPE=Release'',
      ''-DDM_ROBOTICS_BUILD_TESTS=OFF'',
      ''-DDM_ROBOTICS_BUILD_WHEEL=True'',
      ''--log-level=VERBOSE'',
      ''-DDM_ROBOTICS_MUJOCO_TAR=/deps/mujoco-3.1.6-linux-x86_64.tar.gz'',
      ''-DFETCHCONTENT_FULLY_DISCONNECTED:BOOL=TRUE'',
      ''-DDM_ROBOTICS_USE_SYSTEM_Eigen3:BOOL=TRUE'']"
    by (simp add: cmake_args_def use_preinstalled_libs_def world_def os_path_isdir_def
        cmake_args_init_def python_3_11_def release_build_def output_directory_def
        endswith_def os_path_sep_def build_type_def v PRE_DOWNLOADED_MUJOCO_TAR_def)
  have after: "source_dirs_loop (fs ?w) ?after [] = []"
    by (simp add: world_def os_path_isdir_def)
  show ?thesis
    using local_directory_flag [OF on dir, of python_3_11 ?before "''osqp-cpp''" ?after release_build]
    unfolding table [symmetric] before after up
    by simp
qed

text \<open>
  The claim as first stated, for a path that exists, fails when the path is a
  regular file: the path exists and the list holds no flag for it.
\<close>

theorem existing_file_counterexample:
  "use_preinstalled_libs
     (world [(''DM_ROBOTICS_USE_PREINSTALLED_LIBRARIES'', ''1'')] [(''/deps/osqp'', File)])
   \<and> os_path_exists
       (fs (world [(''DM_ROBOTICS_USE_PREINSTALLED_LIBRARIES'', ''1'')] [(''/deps/osqp'', File)]))
       ''/deps/osqp''
   \<and> filter is_source_dir_flag
       (cmake_args python_3_11 [(''osqp'', ''/deps/osqp'')]
          (world [(''DM_ROBOTICS_USE_PREINSTALLED_LIBRARIES'', ''1'')] [(''/deps/osqp'', File)])
          release_build) = []
   \<and> ''-DFETCHCONTENT_SOURCE_DIR_OSQP:STRING=/deps/osqp''
       \<notin> set (cmake_args python_3_11 [(''osqp'', ''/deps/osqp'')]
          (world [(''DM_ROBOTICS_USE_PREINSTALLED_LIBRARIES'', ''1'')] [(''/deps/osqp'', File)])
          release_build)"
  by (simp add: cmake_args_def use_preinstalled_libs_def world_def os_path_exists_def
      os_path_isdir_def cmake_args_init_def PRE_DOWNLOADED_MUJOCO_TAR_def
      is_source_dir_flag_def startswith_def)

text \<open>
  C9: without the override variable and with the output directory
  \<^verbatim>\<open>/out\<close>, the directory handed over is \<^verbatim>\<open>/out/\<close>; a build that is not a
  debug build gets the build type \<^verbatim>\<open>Release\<close> and no flag that disconnects the
  fetching; a debug build gets \<^verbatim>\<open>Debug\<close> and not \<^verbatim>\<open>Release\<close>.  The build type
  is one of the two.
\<close>

theorem release_scenario:
  assumes "environ w ''DM_ROBOTICS_USE_PREINSTALLED_LIBRARIES'' = None"
  shows "output_directory (self\<lparr>ext_dir := ''/out''\<rparr>) = ''/out/''
         \<and> hd (cmake_args sys source_dirs w (self\<lparr>debug := False, ext_dir := ''/out''\<rparr>))
             = ''-DCMAKE_LIBRARY_OUTPUT_DIRECTORY=/out/''
         \<and> ''-DCMAKE_BUILD_TYPE=Release''
             \<in> set (cmake_args sys source_dirs w (self\<lparr>debug := False, ext_dir := ''/out''\<rparr>))
         \<and> ''-DFETCHCONTENT_FULLY_DISCONNECTED:BOOL=TRUE''
             \<notin> set (cmake_args sys source_dirs w (self\<lparr>debug := False, ext_dir := ''/out''\<rparr>))
         \<and> ''-DCMAKE_BUILD_TYPE=Debug''
             \<in> set (cmake_args sys source_dirs w (self\<lparr>debug := True, ext_dir := ''/out''\<rparr>))
         \<and> ''-DCMAKE_BUILD_TYPE=Release''
             \<notin> set (cmake_args sys source_dirs w (self\<lparr>debug := True, ext_dir := ''/out''\<rparr>))
         \<and> (build_type self = ''Debug'' \<or> build_type self = ''Release'')"
proof -
  have off: "cmake_args sys source_dirs w s = cmake_args_init sys s" for s
    using assms by (simp add: cmake_args_def use_preinstalled_libs_def)
  have out: "output_directory (s\<lparr>ext_dir := ''/out''\<rparr>) = ''/out/''" for s :: CMakeBuild
    by (simp add: output_directory_def endswith_def os_path_sep_def)
  show ?thesis
    unfolding off
    by (simp add: cmake_args_init_def out build_type_def)
qed

theorem release_scenario_witness:
  "cmake_args python_3_11 PRE_DOWNLOADED_SOURCE_DIRS (world [] []) release_build =
     [''-DCMAKE_LIBRARY_OUTPUT_DIRECTORY=/out/'',
      ''-DPYTHON_EXECUTABLE=/usr/bin/python3'',
      ''-DDMR_PYTHON_VERSION=3.11'',
      ''-DCMAKE_BUILD_TYPE=Release'',
      ''-DDM_ROBOTICS_BUILD_TESTS=OFF'',
      ''-DDM_ROBOTICS_BUILD_WHEEL=True'',
      ''--log-level=VERBOSE'']
   \<and> ''-DCMAKE_BUILD_TYPE=Release''
       \<in> set (cmake_args python_3_11 PRE_DOWNLOADED_SOURCE_DIRS (world [] [])
                 (release_build\<lparr>debug := False, ext_dir := ''/out''\<rparr>))
   \<and> ''-DCMAKE_BUILD_TYPE=Debug''
       \<in> set (cmake_args python_3_11 PRE_DOWNLOADED_SOURCE_DIRS (world [] [])
                 (release_build\<lparr>debug := True, ext_dir := ''/out''\<rparr>))"
proof -
  have absent: "environ (world [] []) ''DM_ROBOTICS_USE_PREINSTALLED_LIBRARIES'' = None"
    by (simp add: world_def)
  have v: "str_nat 3 = ''3''" "str_nat 11 = ''11''" by code_simp+
  have whole: "cmake_args python_3_11 PRE_DOWNLOADED_SOURCE_DIRS (world [] []) release_build =
     [''-DCMAKE_LIBRARY_OUTPUT_DIRECTORY=/out/'',
      ''-DPYTHON_EXECUTABLE=/usr/bin/python3'',
      ''-DDMR_PYTHON_VERSION=3.11'',
      ''-DCMAKE_BUILD_TYPE=Release'',
      ''-DDM_ROBOTICS_BUILD_TESTS=OFF'',
      ''-DDM_ROBOTICS_BUILD_WHEEL=True'',
      ''--log-level=VERBOSE'']"
    by (simp add: cmake_args_def use_preinstalled_libs_def world_def cmake_args_init_def
        python_3_11_def release_build_def output_directory_def endswith_def os_path_sep_def
        build_type_def v)
  show ?thesis
    using release_scenario [OF absent, of release_build python_3_11 PRE_DOWNLOADED_SOURCE_DIRS] whole
    by simp
qed

subsection \<open>The two calls of the build tool\<close>

lemmas run_defs = build_extension_on_def seq_def print_args_def os_makedirs_def skip_def
  check_call_def record_event_def os_path_exists_def os_path_isdir_def

lemma configure_cmd_not_build_cmd:
  "configure_cmd sys source_dirs w self ext \<noteq> build_cmd w' ext'"
proof -
  obtain rest where "cmake_args sys source_dirs w self = cmake_args_init sys self @ rest"
    using cmake_args_prefix by blast
  then show ?thesis
    by (simp add: configure_cmd_def build_cmd_def cmake_args_init_def)
qed

text \<open>The model on the inputs defined above.\<close>

lemma release_cmake_args:
  assumes "map_of env ''DM_ROBOTICS_USE_PREINSTALLED_LIBRARIES'' = None"
  shows "cmake_args python_3_11 source_dirs (world env files) release_build = release_flags"
proof -
  have v: "str_nat 3 = ''3''" "str_nat 11 = ''11''" by code_simp+
  show ?thesis
    using assms
    by (simp add: cmake_args_def use_preinstalled_libs_def world_def cmake_args_init_def
        python_3_11_def release_build_def output_directory_def endswith_def os_path_sep_def
        build_type_def release_flags_def v)
qed

lemma release_configure_cmd:
  assumes "map_of env ''DM_ROBOTICS_USE_PREINSTALLED_LIBRARIES'' = None"
  shows "configure_cmd python_3_11 source_dirs (world env files) release_build mapper_ext
           = [''cmake''] @ release_flags @ [''-S'', ''/src/cpp'']"
  by (simp add: configure_cmd_def release_cmake_args [OF assms] mapper_ext_def)

lemma exits_with_Some: "exits_with rc cmd cwd = Some rc"
  by (simp add: exits_with_def)

lemma build_temp_release_build: "build_temp release_build = ''build/temp''"
  by (simp add: release_build_def)

text \<open>
  C6: when the build directory is there and the configure call exits with a
  status other than 0, the method raises \<^verbatim>\<open>CalledProcessError\<close> with that
  status and the command line of the configure call, and the configure call is
  the last thing it did: no second process is started.  The command line names
  the phase, since the one of the configure call is never the one of the build
  call.
\<close>

theorem configure_failure_stops:
  assumes "staging_available w self"
    and "run (configure_cmd sys source_dirs w self ext) (build_temp self) = Some rc"
    and "rc \<noteq> 0"
  shows "fst (build_extension_on run sys source_dirs self ext w)
           = Inl (CalledProcessError rc (configure_cmd sys source_dirs w self ext))
         \<and> trace (snd (build_extension_on run sys source_dirs self ext w))
           = trace w @ [PrintArgs (cmake_args sys source_dirs w self)]
               @ (if os_path_isdir (fs w) (build_temp self) then [] else [Makedirs (build_temp self)])
               @ [CheckCall (configure_cmd sys source_dirs w self ext) (build_temp self)]
         \<and> configure_cmd sys source_dirs w self ext \<noteq> build_cmd w ext"
  using assms configure_cmd_not_build_cmd [of sys source_dirs w self ext w ext]
  by (auto simp: run_defs staging_available_def)

theorem configure_failure_stops_witness:
  "fst (build_extension (exits_with 1) python_3_11 release_build mapper_ext (world [] []))
     = Inl (CalledProcessError 1 ([''cmake''] @ release_flags @ [''-S'', ''/src/cpp'']))
   \<and> trace (snd (build_extension (exits_with 1) python_3_11 release_build mapper_ext
         (world [] [])))
     = [PrintArgs release_flags,
        Makedirs ''build/temp'',
        CheckCall ([''cmake''] @ release_flags @ [''-S'', ''/src/cpp'']) ''build/temp'']"
proof -
  let ?cfg = "configure_cmd python_3_11 PRE_DOWNLOADED_SOURCE_DIRS (world [] []) release_build
                mapper_ext"
  have avail: "staging_available (world [] []) release_build"
    by (simp add: staging_available_def world_def)
  have rc: "exits_with 1 ?cfg (build_temp release_build) = Some 1"
    by (rule exits_with_Some)
  have w: "trace (world [] []) = []" "\<not> os_path_isdir (fs (world [] [])) ''build/temp''"
    by (simp_all add: world_def os_path_isdir_def)
  show ?thesis
    using configure_failure_stops
      [of "world [] []" release_build "exits_with 1" python_3_11 PRE_DOWNLOADED_SOURCE_DIRS
          mapper_ext 1, OF avail rc]
    unfolding build_extension_def build_temp_release_build
      release_configure_cmd [of "[]", simplified] release_cmake_args [of "[]", simplified]
    by (simp add: w)
qed

text \<open>
  C7: when the build directory is a directory already, the method asks for no
  directory and leaves the file system alone; it starts the configure call in
  the build directory, then, after an exit status 0, the build call in the same
  directory, and it returns normally exactly when both exit with 0.  When
  nothing has the directory's name, the request to create it comes before any
  process: the calls follow it and find the directory if the request is
  granted, and no process is started if it is refused.
\<close>

theorem staging_directory_reused:
  "(os_path_isdir (fs w) (build_temp self) \<longrightarrow>
      trace (snd (build_extension_on run sys source_dirs self ext w))
        = trace w @ [PrintArgs (cmake_args sys source_dirs w self),
                     CheckCall (configure_cmd sys source_dirs w self ext) (build_temp self)]
            @ (if run (configure_cmd sys source_dirs w self ext) (build_temp self) = Some 0
               then [CheckCall (build_cmd w ext) (build_temp self)] else [])
      \<and> fs (snd (build_extension_on run sys source_dirs self ext w)) = fs w
      \<and> (fst (build_extension_on run sys source_dirs self ext w) = Inr ()
           \<longleftrightarrow> run (configure_cmd sys source_dirs w self ext) (build_temp self) = Some 0
               \<and> run (build_cmd w ext) (build_temp self) = Some 0))
   \<and> (fs w (build_temp self) = None \<and> build_temp self \<notin> mkdir_refused w \<longrightarrow>
      trace (snd (build_extension_on run sys source_dirs self ext w))
        = trace w @ [PrintArgs (cmake_args sys source_dirs w self),
                     Makedirs (build_temp self),
                     CheckCall (configure_cmd sys source_dirs w self ext) (build_temp self)]
            @ (if run (configure_cmd sys source_dirs w self ext) (build_temp self) = Some 0
               then [CheckCall (build_cmd w ext) (build_temp self)] else [])
      \<and> fs (snd (build_extension_on run sys source_dirs self ext w))
          = (fs w)(build_temp self \<mapsto> Dir))
   \<and> (fs w (build_temp self) = None \<and> build_temp self \<in> mkdir_refused w \<longrightarrow>
      trace (snd (build_extension_on run sys source_dirs self ext w))
        = trace w @ [PrintArgs (cmake_args sys source_dirs w self), Makedirs (build_temp self)]
      \<and> fst (build_extension_on run sys source_dirs self ext w) = Inl OSError)"
  by (auto simp: run_defs split: option.splits)

theorem staging_directory_reused_witness:
  "trace (snd (build_extension (exits_with 0) python_3_11 release_build mapper_ext
      (world [(''CMAKE_BUILD_PARALLEL_LEVEL'', ''2'')] [(''build/temp'', Dir)])))
     = [PrintArgs release_flags,
        CheckCall ([''cmake''] @ release_flags @ [''-S'', ''/src/cpp'']) ''build/temp'',
        CheckCall [''cmake'', ''--build'', ''.''] ''build/temp'']
   \<and> fst (build_extension (exits_with 0) python_3_11 release_build mapper_ext
      (world [(''CMAKE_BUILD_PARALLEL_LEVEL'', ''2'')] [(''build/temp'', Dir)])) = Inr ()
   \<and> trace (snd (build_extension (exits_with 0) python_3_11 release_build mapper_ext
          (world [] [])))
     = [PrintArgs release_flags,
        Makedirs ''build/temp'',
        CheckCall ([''cmake''] @ release_flags @ [''-S'', ''/src/cpp'']) ''build/temp'',
        CheckCall [''cmake'', ''--build'', ''.'', ''-j4''] ''build/temp'']
   \<and> fs (snd (build_extension (exits_with 0) python_3_11 release_build mapper_ext (world [] [])))
        ''build/temp'' = Some Dir
   \<and> trace (snd (build_extension (exits_with 0) python_3_11 release_build mapper_ext
        ((world [] [])\<lparr>mkdir_refused := {''build/temp''}\<rparr>)))
     = [PrintArgs release_flags, Makedirs ''build/temp'']
   \<and> fst (build_extension (exits_with 0) python_3_11 release_build mapper_ext
        ((world [] [])\<lparr>mkdir_refused := {''build/temp''}\<rparr>)) = Inl OSError"
proof -
  let ?w1 = "world [(''CMAKE_BUILD_PARALLEL_LEVEL'', ''2'')] [(''build/temp'', Dir)]"
  let ?w2 = "world [] []"
  let ?w3 = "(world [] [])\<lparr>mkdir_refused := {''build/temp''}\<rparr>"
  have args: "cmake_args python_3_11 PRE_DOWNLOADED_SOURCE_DIRS ?w1 release_build = release_flags"
    "cmake_args python_3_11 PRE_DOWNLOADED_SOURCE_DIRS ?w2 release_build = release_flags"
    by (simp_all add: release_cmake_args)
  have args3: "cmake_args python_3_11 PRE_DOWNLOADED_SOURCE_DIRS ?w3 release_build
                 = release_flags"
  proof -
    have "cmake_args python_3_11 PRE_DOWNLOADED_SOURCE_DIRS ?w3 release_build
            = cmake_args python_3_11 PRE_DOWNLOADED_SOURCE_DIRS ?w2 release_build"
      by (simp add: cmake_args_def use_preinstalled_libs_def)
    then show ?thesis by (simp only: args(2))
  qed
  have cfg: "configure_cmd python_3_11 PRE_DOWNLOADED_SOURCE_DIRS ?w1 release_build mapper_ext
               = [''cmake''] @ release_flags @ [''-S'', ''/src/cpp'']"
    "configure_cmd python_3_11 PRE_DOWNLOADED_SOURCE_DIRS ?w2 release_build mapper_ext
               = [''cmake''] @ release_flags @ [''-S'', ''/src/cpp'']"
    by (simp_all add: release_configure_cmd)
  have bld: "build_cmd ?w1 mapper_ext = [''cmake'', ''--build'', ''.'']"
    "build_cmd ?w2 mapper_ext = [''cmake'', ''--build'', ''.'', ''-j4'']"
    by (simp_all add: world_def build_cmd_def build_args_def mapper_ext_def)
  have w1: "os_path_isdir (fs ?w1) ''build/temp''" "trace ?w1 = []"
    by (simp_all add: world_def os_path_isdir_def)
  have w2: "fs ?w2 ''build/temp'' = None" "''build/temp'' \<notin> mkdir_refused ?w2" "trace ?w2 = []"
    by (simp_all add: world_def)
  have w3: "fs ?w3 ''build/temp'' = None" "''build/temp'' \<in> mkdir_refused ?w3" "trace ?w3 = []"
    by (simp_all add: world_def)
  have one: "trace (snd (build_extension (exits_with 0) python_3_11 release_build mapper_ext ?w1))
     = [PrintArgs release_flags,
        CheckCall ([''cmake''] @ release_flags @ [''-S'', ''/src/cpp'']) ''build/temp'',
        CheckCall [''cmake'', ''--build'', ''.''] ''build/temp'']
     \<and> fst (build_extension (exits_with 0) python_3_11 release_build mapper_ext ?w1) = Inr ()"
    using staging_directory_reused
      [of ?w1 release_build "exits_with 0" python_3_11 PRE_DOWNLOADED_SOURCE_DIRS mapper_ext]
    unfolding build_extension_def build_temp_release_build cfg bld args exits_with_Some
    by (simp add: w1)
  have two: "trace (snd (build_extension (exits_with 0) python_3_11 release_build mapper_ext ?w2))
     = [PrintArgs release_flags,
        Makedirs ''build/temp'',
        CheckCall ([''cmake''] @ release_flags @ [''-S'', ''/src/cpp'']) ''build/temp'',
        CheckCall [''cmake'', ''--build'', ''.'', ''-j4''] ''build/temp'']
   \<and> fs (snd (build_extension (exits_with 0) python_3_11 release_build mapper_ext ?w2))
        ''build/temp'' = Some Dir"
    using staging_directory_reused
      [of ?w2 release_build "exits_with 0" python_3_11 PRE_DOWNLOADED_SOURCE_DIRS mapper_ext]
    unfolding build_extension_def build_temp_release_build cfg bld args exits_with_Some
    by (simp add: w2)
  have three: "trace (snd (build_extension (exits_with 0) python_3_11 release_build mapper_ext ?w3))
     = [PrintArgs release_flags, Makedirs ''build/temp'']
   \<and> fst (build_extension (exits_with 0) python_3_11 release_build mapper_ext ?w3)
      = Inl OSError"
    using staging_directory_reused
      [of ?w3 release_build "exits_with 0" python_3_11 PRE_DOWNLOADED_SOURCE_DIRS mapper_ext,
       THEN conjunct2, THEN conjunct2, THEN mp,
       unfolded build_temp_release_build, OF conjI [OF w3(1) w3(2)]]
    unfolding build_extension_def args3 w3(3)
    by simp
  from one two three show ?thesis by simp
qed

text \<open>
  C8: after a configure call that exited with 0, the last thing the method does
  is the build call, whose command line is the tool, \<^verbatim>\<open>--build\<close>, \<^verbatim>\<open>.\<close> and
  then \<^verbatim>\<open>-j4\<close> when \<^verbatim>\<open>CMAKE_BUILD_PARALLEL_LEVEL\<close> is not in the environment,
  nothing when it is.
\<close>

theorem default_parallelism:
  assumes "staging_available w self"
    and "run (configure_cmd sys source_dirs w self ext) (build_temp self) = Some 0"
  shows "last (trace (snd (build_extension_on run sys source_dirs self ext w)))
           = CheckCall ([cmake ext, ''--build'', ''.'']
               @ (if environ w ''CMAKE_BUILD_PARALLEL_LEVEL'' = None then [''-j4''] else []))
               (build_temp self)
         \<and> (''-j4'' \<in> set (build_args w) \<longleftrightarrow> environ w ''CMAKE_BUILD_PARALLEL_LEVEL'' = None)
         \<and> (environ w ''CMAKE_BUILD_PARALLEL_LEVEL'' \<noteq> None \<longrightarrow> build_args w = [])"
proof -
  have cmd: "build_cmd w ext = [cmake ext, ''--build'', ''.'']
               @ (if environ w ''CMAKE_BUILD_PARALLEL_LEVEL'' = None then [''-j4''] else [])"
    by (simp add: build_cmd_def build_args_def)
  have "last (trace (snd (build_extension_on run sys source_dirs self ext w)))
          = CheckCall (build_cmd w ext) (build_temp self)"
    using assms by (auto simp: run_defs staging_available_def split: option.splits)
  then show ?thesis
    unfolding cmd by (simp add: build_args_def)
qed

theorem default_parallelism_witness:
  "last (trace (snd (build_extension (exits_with 0) python_3_11 release_build mapper_ext
      (world [] []))))
     = CheckCall [''cmake'', ''--build'', ''.'', ''-j4''] ''build/temp''
   \<and> last (trace (snd (build_extension (exits_with 0) python_3_11 release_build mapper_ext
      (world [(''CMAKE_BUILD_PARALLEL_LEVEL'', ''2'')] []))))
     = CheckCall [''cmake'', ''--build'', ''.''] ''build/temp''
   \<and> build_args (world [(''CMAKE_BUILD_PARALLEL_LEVEL'', ''2'')] []) = []"
proof -
  let ?w1 = "world [] []"
  let ?w2 = "world [(''CMAKE_BUILD_PARALLEL_LEVEL'', ''2'')] []"
  have avail: "staging_available ?w1 release_build" "staging_available ?w2 release_build"
    by (simp_all add: staging_available_def world_def)
  have env: "environ ?w1 ''CMAKE_BUILD_PARALLEL_LEVEL'' = None"
    "environ ?w2 ''CMAKE_BUILD_PARALLEL_LEVEL'' \<noteq> None"
    by (simp_all add: world_def)
  have tool: "cmake mapper_ext = ''cmake''"
    by (simp add: mapper_ext_def)
  have one: "last (trace (snd (build_extension (exits_with 0) python_3_11 release_build
               mapper_ext ?w1)))
     = CheckCall [''cmake'', ''--build'', ''.'', ''-j4''] ''build/temp''"
    using default_parallelism
      [of ?w1 release_build "exits_with 0" python_3_11 PRE_DOWNLOADED_SOURCE_DIRS mapper_ext,
       OF avail(1) exits_with_Some] env(1)
    unfolding build_extension_def build_temp_release_build tool
    by simp
  have two: "last (trace (snd (build_extension (exits_with 0) python_3_11 release_build
               mapper_ext ?w2)))
     = CheckCall [''cmake'', ''--build'', ''.''] ''build/temp''
     \<and> build_args ?w2 = []"
    using default_parallelism
      [of ?w2 release_build "exits_with 0" python_3_11 PRE_DOWNLOADED_SOURCE_DIRS mapper_ext,
       OF avail(2) exits_with_Some] env(2)
    unfolding build_extension_def build_temp_release_build tool
    by simp
  from one two show ?thesis by simp
qed

end
